theory Spec2Isabelle
  imports Complex_Main "HOL-Library.Multiset"
begin

section \<open>Common values\<close>

text \<open>
  Python exceptions are values: a function that can raise returns \<open>py_error + 'a\<close>,
  with \<open>Inl\<close> carrying the exception and its message.
\<close>

datatype py_error =
    ValueError string
  | KeyError string
  | AttributeError string
  | Exception string

text \<open>
  Costs, utilisations and sizes are Python floats. They are modelled as reals: rounding of
  the binary representation and overflow are idealised away. The non-finite values that numpy
  and pandas produce by definition (division by zero, \<open>log1p\<close> outside its domain, the
  standard deviation of one observation) are kept as values of \<open>npfloat\<close>.
\<close>

datatype npfloat = Finite real | PosInf | NegInf | NaN

text \<open>Division of two finite float64 values, as numpy does it (a warning, never a raise).\<close>

definition np_div :: "real \<Rightarrow> real \<Rightarrow> npfloat" where
  "np_div a b =
     (if b \<noteq> 0 then Finite (a / b)
      else if a > 0 then PosInf
      else if a < 0 then NegInf
      else NaN)"

text \<open>Multiplication of a float64 value by a positive finite constant.\<close>

definition np_scale :: "npfloat \<Rightarrow> real \<Rightarrow> npfloat" where
  "np_scale x k = (case x of Finite v \<Rightarrow> Finite (v * k) | PosInf \<Rightarrow> PosInf | NegInf \<Rightarrow> NegInf | NaN \<Rightarrow> NaN)"

text \<open>The comparison \<open>x >= c\<close> against a finite constant: false on NaN.\<close>

definition np_ge :: "npfloat \<Rightarrow> real \<Rightarrow> bool" where
  "np_ge x c = (case x of Finite v \<Rightarrow> c \<le> v | PosInf \<Rightarrow> True | NegInf \<Rightarrow> False | NaN \<Rightarrow> False)"


section \<open>EnterpriseOptimizer (ml/advanced\_optimizer.py)\<close>

text \<open>
  \<open>budget_thresholds\<close> is a dict literal; iteration follows insertion order, so it is an
  association list. The upper bound \<open>float('inf')\<close> of the last bracket is \<open>None\<close>.
\<close>

definition budget_thresholds :: "(string \<times> real \<times> real option) list" where
  "budget_thresholds =
     [(''small'', 100000, Some 500000),
      (''medium'', 500000, Some 2000000),
      (''large'', 2000000, Some 5000000),
      (''enterprise'', 5000000, None)]"

fun below :: "real \<Rightarrow> real option \<Rightarrow> bool" where
  "below b None = True"
| "below b (Some h) = (b < h)"

text \<open>The \<open>for\<close> loop of \<open>analyze_budget_category\<close> with its fall-through return.\<close>

fun category_scan :: "(string \<times> real \<times> real option) list \<Rightarrow> real \<Rightarrow> string" where
  "category_scan [] monthly_budget = ''enterprise''"
| "category_scan ((category, min_budget, max_budget) # rest) monthly_budget =
     (if min_budget \<le> monthly_budget \<and> below monthly_budget max_budget then category
      else category_scan rest monthly_budget)"

definition analyze_budget_category :: "real \<Rightarrow> string" where
  "analyze_budget_category monthly_budget = category_scan budget_thresholds monthly_budget"

definition timelines :: "(string \<times> (string \<times> string) list) list" where
  "timelines =
     [(''small'',
         [(''quick_wins'', ''1-2 weeks''), (''rightsizing'', ''1 month''),
          (''reserved_instances'', ''2-3 months'')]),
      (''medium'',
         [(''quick_wins'', ''2-3 weeks''), (''automation'', ''2 months''),
          (''governance'', ''3-4 months'')]),
      (''large'',
         [(''assessment'', ''1 month''), (''pilot_implementation'', ''2-3 months''),
          (''full_rollout'', ''6-9 months'')]),
      (''enterprise'',
         [(''strategy_development'', ''2 months''), (''pilot_programs'', ''3-6 months''),
          (''enterprise_rollout'', ''12-18 months'')])]"

definition get_implementation_timeline :: "string \<Rightarrow> (string \<times> string) list" where
  "get_implementation_timeline category =
     (case map_of timelines category of
        Some t \<Rightarrow> t
      | None \<Rightarrow> [(''quick_wins'', ''2-3 weeks''), (''automation'', ''2 months''),
                 (''governance'', ''3-4 months'')])"

record budget_report =
  budget_category :: string
  current_monthly_cost :: real
  projected_monthly_savings :: real
  cost_reduction_percentage :: npfloat
  annual_savings :: real
  recommendations :: "string list"
  implementation_timeline :: "(string \<times> string) list"

text \<open>
  \<open>optimize_for_budget\<close>: the argument is the \<open>cost\<close> column of \<open>costs_df\<close> (float64), whose
  sum is a numpy float, so that \<open>projected_savings / current_monthly\<close> is numpy's division.
\<close>

definition optimize_for_budget :: "real list \<Rightarrow> real \<Rightarrow> budget_report" where
  "optimize_for_budget costs monthly_budget =
     (let category = analyze_budget_category monthly_budget;
          current_monthly = sum_list costs;
          (projected_savings, recs) =
            (if category \<in> set [''small'', ''medium''] then
               (current_monthly * 0.15 + current_monthly * 0.20,
                [''Implement auto-scaling for development environments'',
                 ''Purchase reserved instances for stable workloads'',
                 ''Right-size oversized instances based on utilization''])
             else if category = ''large'' then
               (current_monthly * 0.20 + current_monthly * 0.15 + current_monthly * 0.10,
                [''Implement spot instance strategies for non-critical workloads'',
                 ''Optimize data lifecycle and storage tiers'',
                 ''Deploy advanced monitoring and automated scaling'',
                 ''Implement cost allocation tags for chargeback''])
             else
               (current_monthly * 0.25 + current_monthly * 0.08 + current_monthly * 0.12,
                [''Deploy enterprise discount programs and volume commitments'',
                 ''Implement multi-cloud cost arbitrage strategies'',
                 ''Advanced workload placement optimization'',
                 ''Enterprise-grade FinOps governance framework'',
                 ''Automated cost anomaly detection and remediation'']));
          potential_reduction = np_div projected_savings current_monthly;
          annual = projected_savings * 12
      in \<lparr> budget_category = category,
           current_monthly_cost = current_monthly,
           projected_monthly_savings = projected_savings,
           cost_reduction_percentage = np_scale potential_reduction 100,
           annual_savings = annual,
           recommendations = recs,
           implementation_timeline = get_implementation_timeline category \<rparr>)"


section \<open>CostAnomalyDetector (ml/anomaly\_detector.py)\<close>

subsection \<open>Input frame\<close>

text \<open>
  A parsed pandas timestamp: its position on the time line and the calendar fields that the
  \<open>.dt\<close> accessor exposes. \<open>pd.to_datetime\<close> raises on a value it cannot parse.
\<close>

record datetime =
  epoch :: int
  dt_hour :: nat
  dt_dayofweek :: nat
  dt_day :: nat
  dt_month :: nat

datatype raw_timestamp = Parsed datetime | Unparseable string

fun to_datetime :: "raw_timestamp \<Rightarrow> py_error + datetime" where
  "to_datetime (Parsed d) = Inr d"
| "to_datetime (Unparseable s) = Inl (ValueError s)"

text \<open>
  One row of the cost frame. The optional columns \<open>usage_hours\<close> and \<open>resource_count\<close> are
  \<open>None\<close> where the frame has no value for them.
\<close>

record 'ts cost_record =
  timestamp :: 'ts
  provider :: string
  cost :: real
  usage_hours :: "real option"
  resource_count :: "real option"

record feature_row = "datetime cost_record" +
  hour :: nat
  day_of_week :: nat
  day_of_month :: nat
  month :: nat
  log_cost :: npfloat
  provider_encoded :: nat
  cost_rolling_mean_7d :: npfloat
  cost_rolling_std_7d :: npfloat
  cost_rolling_median_7d :: npfloat
  cost_zscore :: npfloat
  usage_hours_normalized :: "real option"
  cost_per_resource :: "npfloat option"

text \<open>\<open>df['timestamp'] = pd.to_datetime(df['timestamp'])\<close>: the first unparseable value raises.\<close>

fun convert_timestamps ::
  "raw_timestamp cost_record list \<Rightarrow> py_error + datetime cost_record list" where
  "convert_timestamps [] = Inr []"
| "convert_timestamps (r # rs) =
     (case to_datetime (timestamp r) of
        Inl e \<Rightarrow> Inl e
      | Inr d \<Rightarrow>
          (case convert_timestamps rs of
             Inl e \<Rightarrow> Inl e
           | Inr ds \<Rightarrow>
               Inr (\<lparr> timestamp = d, provider = provider r, cost = cost r,
                      usage_hours = usage_hours r, resource_count = resource_count r \<rparr> # ds)))"

subsection \<open>Series statistics\<close>

text \<open>\<open>np.log1p\<close>: a warning and a non-finite value outside the domain, never a raise.\<close>

definition log1p :: "real \<Rightarrow> npfloat" where
  "log1p x = (if x > -1 then Finite (ln (1 + x)) else if x = -1 then NegInf else NaN)"

definition series_mean :: "real list \<Rightarrow> npfloat" where
  "series_mean xs = (if xs = [] then NaN else Finite (sum_list xs / real (length xs)))"

text \<open>The sample standard deviation (pandas uses \<open>ddof=1\<close>): NaN on fewer than two values.\<close>

definition series_std :: "real list \<Rightarrow> npfloat" where
  "series_std xs =
     (if length xs < 2 then NaN
      else let m = sum_list xs / real (length xs)
           in Finite (sqrt (sum_list (map (\<lambda>x. (x - m)\<^sup>2) xs) / real (length xs - 1))))"

definition series_median :: "real list \<Rightarrow> npfloat" where
  "series_median xs =
     (if xs = [] then NaN
      else let s = sort xs; n = length xs
           in if odd n then Finite (s ! (n div 2))
              else Finite ((s ! (n div 2 - 1) + s ! (n div 2)) / 2))"

text \<open>
  \<open>rolling(window=w, min_periods=1)\<close> at position \<open>i\<close> sees the values at positions
  \<open>i-w+1 .. i\<close> that exist: at most \<open>w\<close> values, ending with the current one.
\<close>

definition window :: "nat \<Rightarrow> real list \<Rightarrow> nat \<Rightarrow> real list" where
  "window w xs i = drop (Suc i - w) (take (Suc i) xs)"

text \<open>\<open>(cost - mean) / (std + 1e-8)\<close>; NaN in either statistic propagates.\<close>

definition zscore :: "real \<Rightarrow> npfloat \<Rightarrow> npfloat \<Rightarrow> npfloat" where
  "zscore c m s =
     (case (m, s) of
        (Finite mv, Finite sv) \<Rightarrow> np_div (c - mv) (sv + 1 / 100000000)
      | _ \<Rightarrow> NaN)"

subsection \<open>prepare\_features\<close>

definition provider_mapping :: "(string \<times> nat) list" where
  "provider_mapping = [(''aws'', 0), (''azure'', 1), (''onpremises'', 2)]"

text \<open>The columns of one row, given the four statistics that depend on the whole frame.\<close>

definition make_row ::
  "datetime cost_record \<Rightarrow> npfloat \<Rightarrow> npfloat \<Rightarrow> npfloat \<Rightarrow> npfloat \<Rightarrow> feature_row" where
  "make_row r mean_v std_v median_v z =
     \<lparr> timestamp = timestamp r, provider = provider r, cost = cost r,
       usage_hours = usage_hours r, resource_count = resource_count r,
       hour = dt_hour (timestamp r),
       day_of_week = dt_dayofweek (timestamp r),
       day_of_month = dt_day (timestamp r),
       month = dt_month (timestamp r),
       log_cost = log1p (cost r),
       provider_encoded = (case map_of provider_mapping (provider r) of Some c \<Rightarrow> c | None \<Rightarrow> 3),
       cost_rolling_mean_7d = mean_v,
       cost_rolling_std_7d = std_v,
       cost_rolling_median_7d = median_v,
       cost_zscore = z,
       usage_hours_normalized = map_option (\<lambda>u. u / 744) (usage_hours r),
       cost_per_resource = map_option (\<lambda>n. np_div (cost r) (n + 1)) (resource_count r) \<rparr>"

text \<open>
  With more than seven rows the frame is sorted by timestamp and the statistics are rolling;
  otherwise they are those of the whole series, in the order given. \<open>sort_values\<close> is the
  stable \<open>sort_key\<close> on the timestamp.
\<close>

definition prepare_features ::
  "raw_timestamp cost_record list \<Rightarrow> py_error + feature_row list" where
  "prepare_features cost_data =
     (case convert_timestamps cost_data of
        Inl e \<Rightarrow> Inl e
      | Inr df \<Rightarrow>
          Inr (if length df > 7 then
                 (let sorted_df = sort_key (\<lambda>r. epoch (timestamp r)) df;
                      costs = map cost sorted_df
                  in map (\<lambda>i.
                        let r = sorted_df ! i;
                            m = series_mean (window 7 costs i);
                            s = series_std (window 7 costs i);
                            md = series_median (window 7 costs i)
                        in make_row r m s md (zscore (cost r) m s))
                      [0..<length sorted_df])
               else
                 (let costs = map cost df;
                      m = series_mean costs;
                      s = series_std costs;
                      md = series_median costs
                  in map (\<lambda>r. make_row r m s md (zscore (cost r) m s)) df)))"

subsection \<open>Severity\<close>

text \<open>The first \<open>if\<close> chain of the loop body of \<open>_calculate_severity\<close>.\<close>

definition score_severity :: "real \<Rightarrow> string" where
  "score_severity score =
     (if score < - 0.5 then ''high''
      else if score < - 0.2 then ''medium''
      else if score < 0 then ''low''
      else ''normal'')"

text \<open>The whole loop body: the chain above, then the adjustment by cost magnitude.\<close>

definition severity_of :: "real \<Rightarrow> real \<Rightarrow> real \<Rightarrow> string" where
  "severity_of p95_cost score c =
     (let severity = score_severity score
      in if c > p95_cost * 2 then
           (if severity = ''medium'' then ''high''
            else if severity = ''low'' then ''medium''
            else severity)
         else severity)"

text \<open>
  The loop over \<open>zip(anomaly_scores, costs)\<close>. \<open>baseline_stats\<close> is the dict filled by \<open>train\<close>;
  reading \<open>'p95_cost'\<close> from a dict without it raises KeyError.
\<close>

fun severity_loop :: "(string \<rightharpoonup> real) \<Rightarrow> (real \<times> real) list \<Rightarrow> py_error + string list" where
  "severity_loop baseline_stats [] = Inr []"
| "severity_loop baseline_stats ((score, c) # rest) =
     (case baseline_stats ''p95_cost'' of
        None \<Rightarrow> Inl (KeyError ''p95_cost'')
      | Some p95 \<Rightarrow>
          (case severity_loop baseline_stats rest of
             Inl e \<Rightarrow> Inl e
           | Inr severities \<Rightarrow> Inr (severity_of p95 score c # severities)))"

definition calculate_severity ::
  "(string \<rightharpoonup> real) \<Rightarrow> real list \<Rightarrow> real list \<Rightarrow> py_error + string list" where
  "calculate_severity baseline_stats anomaly_scores costs =
     severity_loop baseline_stats (zip anomaly_scores costs)"

text \<open>The order of the severity labels, lowest first, used to say that one is not below another.\<close>

definition severity_rank :: "string \<Rightarrow> nat" where
  "severity_rank s =
     (if s = ''high'' then 3 else if s = ''medium'' then 2 else if s = ''low'' then 1 else 0)"


subsection \<open>Sample frames\<close>

text \<open>A record at time \<open>t\<close> with cost \<open>c\<close>, unparsed and parsed, for concrete evaluations.\<close>

definition record_at :: "int \<Rightarrow> real \<Rightarrow> raw_timestamp cost_record" where
  "record_at t c =
     \<lparr> timestamp = Parsed \<lparr> epoch = t, dt_hour = 0, dt_dayofweek = 0, dt_day = 1, dt_month = 1 \<rparr>,
       provider = ''aws'', cost = c, usage_hours = None, resource_count = None \<rparr>"

definition parsed_at :: "int \<Rightarrow> real \<Rightarrow> datetime cost_record" where
  "parsed_at t c =
     \<lparr> timestamp = \<lparr> epoch = t, dt_hour = 0, dt_dayofweek = 0, dt_day = 1, dt_month = 1 \<rparr>,
       provider = ''aws'', cost = c, usage_hours = None, resource_count = None \<rparr>"


section \<open>CostPredictor (ml/cost\_predictor.py)\<close>

subsection \<open>The forecasting library\<close>

text \<open>
  Prophet is not part of the repository. A model object is represented by the one thing the
  predictor asks of it: the forecast frame that \<open>predict(make_future_dataframe(periods))\<close>
  returns for a number of periods (history rows followed by the future rows), or the
  exception it raises. Prophet reports \<open>yhat_lower\<close> and \<open>yhat_upper\<close> as an uncertainty
  interval around \<open>yhat\<close>; statements that rest on this say so as a hypothesis on the library.
\<close>

record forecast_row =
  ds :: int
  yhat :: real
  yhat_lower :: real
  yhat_upper :: real

type_synonym prophet = "nat \<Rightarrow> py_error + forecast_row list"

text \<open>
  What training asks of the library: the configured but unfitted model, fitting it to a
  series, the two error measurements of \<open>_calculate_accuracy\<close> (each may raise), and the
  clock.
\<close>

record prophet_lib =
  unfitted :: prophet
  fit :: "(int \<times> real) list \<Rightarrow> py_error + prophet"
  holdout_mape :: "(int \<times> real) list \<Rightarrow> py_error + real"
  cross_validation_mape :: "prophet \<Rightarrow> py_error + real"
  now :: int

subsection \<open>The predictor\<close>

record predictor =
  model :: "prophet option"
  is_trained :: bool
  last_training_date :: "int option"
  model_accuracy :: "real option"

text \<open>The state after \<open>__init__\<close>.\<close>

definition new_predictor :: predictor where
  "new_predictor =
     \<lparr> model = None, is_trained = False, last_training_date = None, model_accuracy = None \<rparr>"

text \<open>
  \<open>prepare_data\<close>: rows are (date, cost); costs are summed per distinct date and the result is
  in ascending date order.
\<close>

definition prepare_data :: "(int \<times> real) list \<Rightarrow> (int \<times> real) list" where
  "prepare_data cost_data =
     map (\<lambda>d. (d, sum_list (map snd (filter (\<lambda>r. fst r = d) cost_data))))
       (sort (remdups (map fst cost_data)))"

text \<open>\<open>_calculate_accuracy\<close> swallows every exception and falls back to 0.85.\<close>

definition calculate_accuracy :: "prophet_lib \<Rightarrow> prophet \<Rightarrow> (int \<times> real) list \<Rightarrow> real" where
  "calculate_accuracy lib m df_prophet =
     (case (if length df_prophet < 30 then holdout_mape lib df_prophet
            else cross_validation_mape lib m) of
        Inl e \<Rightarrow> 0.85
      | Inr mape \<Rightarrow> max 0 (1 - mape))"

text \<open>
  \<open>train_model\<close> returns the exception it re-raises, if any, and the predictor as the call
  leaves it. The model attribute is assigned before fitting, so a failed fit leaves the
  unfitted model behind.
\<close>

definition train_model ::
  "prophet_lib \<Rightarrow> predictor \<Rightarrow> (int \<times> real) list \<Rightarrow> py_error option \<times> predictor" where
  "train_model lib self cost_data =
     (let df_prophet = prepare_data cost_data
      in if length df_prophet < 14 then
           (Some (ValueError ''Need at least 14 days of data for training''), self)
         else
           (case fit lib df_prophet of
              Inl e \<Rightarrow> (Some e, self\<lparr> model := Some (unfitted lib) \<rparr>)
            | Inr m \<Rightarrow>
                (None,
                 self\<lparr> model := Some m,
                        model_accuracy := Some (calculate_accuracy lib m df_prophet),
                        is_trained := True,
                        last_training_date := Some (now lib) \<rparr>)))"

record prediction =
  date :: int
  predicted_cost :: real
  confidence_lower :: real
  confidence_upper :: real

text \<open>\<open>Series.clip(lower=0)\<close> on one value, and \<open>DataFrame.tail(n)\<close>.\<close>

definition clip_lower :: "real \<Rightarrow> real \<Rightarrow> real" where
  "clip_lower lo x = max lo x"

definition tail :: "nat \<Rightarrow> 'a list \<Rightarrow> 'a list" where
  "tail n xs = drop (length xs - n) xs"

text \<open>
  \<open>predict\<close>, for a horizon that is a natural number of days. A predictor flagged as trained
  whose model attribute is \<open>None\<close> fails on the attribute access.
\<close>

definition predict :: "predictor \<Rightarrow> nat \<Rightarrow> py_error + prediction list" where
  "predict self days_ahead =
     (if \<not> is_trained self then
        Inl (ValueError ''Model must be trained before making predictions'')
      else
        (case model self of
           None \<Rightarrow> Inl (AttributeError ''make_future_dataframe'')
         | Some m \<Rightarrow>
             (case m days_ahead of
                Inl e \<Rightarrow> Inl e
              | Inr forecast \<Rightarrow>
                  Inr (map (\<lambda>r. \<lparr> date = ds r,
                                   predicted_cost = clip_lower 0 (yhat r),
                                   confidence_lower = clip_lower 0 (yhat_lower r),
                                   confidence_upper = clip_lower 0 (yhat_upper r) \<rparr>)
                        (tail days_ahead forecast)))))"

text \<open>
  A library for concrete evaluations: every fit yields a model that forecasts the same level
  for each of the requested days, with an interval of the given half-width around it.
\<close>

definition level_model :: "real \<Rightarrow> real \<Rightarrow> prophet" where
  "level_model level width =
     (\<lambda>periods. Inr (map (\<lambda>k. \<lparr> ds = int k, yhat = level, yhat_lower = level - width,
                                   yhat_upper = level + width \<rparr>) [0..<periods]))"

definition sample_library :: prophet_lib where
  "sample_library =
     \<lparr> unfitted = (\<lambda>periods. Inl (Exception ''Model has not been fit.'')),
       fit = (\<lambda>df. Inr (level_model (- 1) 3)),
       holdout_mape = (\<lambda>df. Inr 0.1),
       cross_validation_mape = (\<lambda>m. Inr 0.1),
       now = 0 \<rparr>"

definition fortnight :: "(int \<times> real) list" where
  "fortnight =
     [(1, 100), (2, 100), (3, 100), (4, 100), (5, 100), (6, 100), (7, 100),
      (8, 100), (9, 100), (10, 100), (11, 100), (12, 100), (13, 100), (14, 100)]"


section \<open>ResourceOptimizer (ml/optimizer.py)\<close>

subsection \<open>Python helpers\<close>

text \<open>\<open>d.get(key, default)\<close> on a dict whose key may be missing.\<close>

definition get_or :: "'a option \<Rightarrow> 'a \<Rightarrow> 'a" where
  "get_or v default_value = (case v of Some x \<Rightarrow> x | None \<Rightarrow> default_value)"

text \<open>\<open>int(x)\<close> on a float truncates towards zero.\<close>

definition py_int :: "real \<Rightarrow> int" where
  "py_int x = (if 0 \<le> x then \<lfloor>x\<rfloor> else \<lceil>x\<rceil>)"

text \<open>\<open>round(x, ndigits)\<close>: to the nearest multiple of \<open>10^-ndigits\<close>, ties to the even one.\<close>

definition round_half_even :: "real \<Rightarrow> int" where
  "round_half_even x =
     (let f = \<lfloor>x\<rfloor>; d = x - of_int f
      in if d < 1 / 2 then f else if 1 / 2 < d then f + 1 else if even f then f else f + 1)"

definition py_round :: "real \<Rightarrow> nat \<Rightarrow> real" where
  "py_round x ndigits = of_int (round_half_even (x * 10 ^ ndigits)) / 10 ^ ndigits"

subsection \<open>Instance catalog\<close>

text \<open>One catalog entry; \<open>spec_cost\<close> is the entry's \<open>'cost'\<close> key.\<close>

record instance_spec =
  cpu :: int
  memory :: real
  spec_cost :: real

definition aws_catalog :: "(string \<times> instance_spec) list" where
  "aws_catalog =
     [(''t3.nano'', \<lparr> cpu = 2, memory = 0.5, spec_cost = 3.50 \<rparr>),
      (''t3.micro'', \<lparr> cpu = 2, memory = 1, spec_cost = 7.00 \<rparr>),
      (''t3.small'', \<lparr> cpu = 2, memory = 2, spec_cost = 14.00 \<rparr>),
      (''t3.medium'', \<lparr> cpu = 2, memory = 4, spec_cost = 28.00 \<rparr>),
      (''t3.large'', \<lparr> cpu = 2, memory = 8, spec_cost = 56.00 \<rparr>),
      (''m5.large'', \<lparr> cpu = 2, memory = 8, spec_cost = 70.02 \<rparr>),
      (''m5.xlarge'', \<lparr> cpu = 4, memory = 16, spec_cost = 140.16 \<rparr>),
      (''m5.2xlarge'', \<lparr> cpu = 8, memory = 32, spec_cost = 280.32 \<rparr>),
      (''m5.4xlarge'', \<lparr> cpu = 16, memory = 64, spec_cost = 560.16 \<rparr>)]"

definition azure_catalog :: "(string \<times> instance_spec) list" where
  "azure_catalog =
     [(''Standard_B1s'', \<lparr> cpu = 1, memory = 1, spec_cost = 7.52 \<rparr>),
      (''Standard_B2s'', \<lparr> cpu = 2, memory = 4, spec_cost = 30.08 \<rparr>),
      (''Standard_D2s_v4'', \<lparr> cpu = 2, memory = 8, spec_cost = 70.08 \<rparr>),
      (''Standard_D4s_v4'', \<lparr> cpu = 4, memory = 16, spec_cost = 140.16 \<rparr>),
      (''Standard_D8s_v4'', \<lparr> cpu = 8, memory = 32, spec_cost = 280.32 \<rparr>)]"

text \<open>The dict \<open>instance_hierarchy\<close>: provider to catalog, in the order of the literal.\<close>

definition instance_hierarchy :: "(string \<times> (string \<times> instance_spec) list) list" where
  "instance_hierarchy = [(''aws'', aws_catalog), (''azure'', azure_catalog)]"

subsection \<open>\_find\_optimal\_instance\_type\<close>

text \<open>
  The loop over \<open>available_types.items()\<close>: the pair carried along is
  \<open>(best_type, best_cost)\<close>.
\<close>

fun best_scan ::
  "int \<Rightarrow> real \<Rightarrow> (string \<times> instance_spec) list \<Rightarrow> string \<times> real \<Rightarrow> string \<times> real" where
  "best_scan required_cpu required_memory [] best = best"
| "best_scan required_cpu required_memory ((instance_type, spec) # rest) (best_type, best_cost) =
     (if required_cpu \<le> cpu spec \<and> required_memory \<le> memory spec \<and> spec_cost spec < best_cost
      then best_scan required_cpu required_memory rest (instance_type, spec_cost spec)
      else best_scan required_cpu required_memory rest (best_type, best_cost))"

definition required_cpu_of :: "instance_spec \<Rightarrow> real \<Rightarrow> int" where
  "required_cpu_of current_spec cpu_util =
     max 1 (py_int (of_int (cpu current_spec) * cpu_util / 100 * 1.2))"

definition required_memory_of :: "instance_spec \<Rightarrow> real \<Rightarrow> real" where
  "required_memory_of current_spec memory_util =
     max 0.5 (memory current_spec * memory_util / 100 * 1.2)"

definition find_optimal_instance_type ::
  "string \<Rightarrow> string \<Rightarrow> real \<Rightarrow> real \<Rightarrow> (string \<times> (string \<times> instance_spec) list) list \<Rightarrow> string" where
  "find_optimal_instance_type prov current_type cpu_util memory_util hierarchy =
     (let available_types = get_or (map_of hierarchy prov) []
      in case map_of available_types current_type of
           None \<Rightarrow> current_type
         | Some current_spec \<Rightarrow>
             fst (best_scan (required_cpu_of current_spec cpu_util)
                    (required_memory_of current_spec memory_util)
                    available_types (current_type, spec_cost current_spec)))"

subsection \<open>Rightsizing recommendations\<close>

definition calculate_recommendation_confidence :: "real \<Rightarrow> real \<Rightarrow> real \<Rightarrow> real" where
  "calculate_recommendation_confidence cpu_util memory_util savings_ratio =
     min 0.95
       (0.5
        + (if cpu_util < 20 then 0.3 else if cpu_util < 40 then 0.2 else 0)
        + (if memory_util < 30 then 0.2 else if memory_util < 50 then 0.1 else 0)
        + (if 0.5 < savings_ratio then 0.2 else if 0.3 < savings_ratio then 0.1 else 0))"

text \<open>
  The sentences of \<open>_generate_reasoning\<close>, each with the number it prints, in place of the
  formatted text.
\<close>

datatype reason = LowCpu real | LowMemory real | SignificantSavings real

definition generate_reasoning :: "real \<Rightarrow> real \<Rightarrow> real \<Rightarrow> reason list" where
  "generate_reasoning cpu_util memory_util savings_ratio =
     (if cpu_util < 25 then [LowCpu cpu_util] else [])
     @ (if memory_util < 40 then [LowMemory memory_util] else [])
     @ (if 0.4 < savings_ratio then [SignificantSavings (savings_ratio * 100)] else [])"

text \<open>An instance dict: every key may be missing.\<close>

record compute_instance =
  inst_resource_id :: "string option"
  inst_provider :: "string option"
  inst_service :: "string option"
  inst_instance_type :: "string option"
  inst_cpu_utilization :: "real option"
  inst_memory_utilization :: "real option"
  inst_monthly_cost :: "real option"

record rightsizing =
  resource_id :: string
  rec_provider :: string
  rec_service :: string
  current_instance :: string
  recommended_instance :: string
  current_cost :: real
  projected_cost :: real
  monthly_savings :: real
  savings_percentage :: real
  cpu_utilization :: real
  memory_utilization :: real
  confidence :: real
  reasoning :: "reason list"

text \<open>
  The body of the loop of \<open>generate_rightsizing_recommendations\<close> for one instance: the
  recommendation it appends, or \<open>None\<close> when it appends nothing. An exception inside the
  \<open>try\<close> (a missing catalog key, a division by a zero cost) is caught and the instance is
  skipped.
\<close>

definition rightsize_instance :: "compute_instance \<Rightarrow> rightsizing option" where
  "rightsize_instance inst =
     (let prov = get_or (inst_provider inst) ''aws'';
          current_type = get_or (inst_instance_type inst) ''m5.large'';
          cpu_util = get_or (inst_cpu_utilization inst) 50;
          memory_util = get_or (inst_memory_utilization inst) 50;
          cur_cost = get_or (inst_monthly_cost inst) 100
      in case map_of instance_hierarchy prov of
           None \<Rightarrow> None
         | Some catalog \<Rightarrow>
             (let optimal_type =
                    find_optimal_instance_type prov current_type cpu_util memory_util
                      instance_hierarchy
              in if optimal_type \<noteq> current_type then
                   (case map_of catalog optimal_type of
                      None \<Rightarrow> None
                    | Some optimal_spec \<Rightarrow>
                        (let optimal_cost = spec_cost optimal_spec;
                             savings = cur_cost - optimal_cost
                         in if 10 < savings then
                              (if cur_cost = 0 then None
                               else Some
                                 \<lparr> resource_id = get_or (inst_resource_id inst) ''unknown'',
                                   rec_provider = prov,
                                   rec_service = get_or (inst_service inst) ''compute'',
                                   current_instance = current_type,
                                   recommended_instance = optimal_type,
                                   current_cost = py_round cur_cost 2,
                                   projected_cost = py_round optimal_cost 2,
                                   monthly_savings = py_round savings 2,
                                   savings_percentage = py_round (savings / cur_cost * 100) 1,
                                   cpu_utilization = cpu_util,
                                   memory_utilization = memory_util,
                                   confidence =
                                     calculate_recommendation_confidence cpu_util memory_util
                                       (savings / cur_cost),
                                   reasoning =
                                     generate_reasoning cpu_util memory_util
                                       (savings / cur_cost) \<rparr>)
                            else None))
                 else None))"




subsection \<open>Storage tiering\<close>

definition pricing :: "(string \<times> (string \<times> real) list) list" where
  "pricing =
     [(''aws'',
         [(''standard'', 0.023), (''standard_ia'', 0.0125), (''glacier'', 0.004),
          (''glacier_deep'', 0.00099)]),
      (''azure'',
         [(''hot'', 0.0184), (''cool'', 0.01), (''archive'', 0.00099)])]"

text \<open>\<open>pricing[provider][storage_class]\<close>; a missing key raises KeyError.\<close>

definition price :: "string \<Rightarrow> string \<Rightarrow> py_error + real" where
  "price prov cls =
     (case map_of pricing prov of
        None \<Rightarrow> Inl (KeyError prov)
      | Some table \<Rightarrow>
          (case map_of table cls of
             None \<Rightarrow> Inl (KeyError cls)
           | Some p \<Rightarrow> Inr p))"

definition get_optimal_storage_class ::
  "string \<Rightarrow> real \<Rightarrow> real \<Rightarrow> real \<Rightarrow> py_error + string \<times> real" where
  "get_optimal_storage_class prov last_accessed current gb =
     (if prov = ''aws'' then
        (let optimal_class =
               (if last_accessed \<le> 30 then ''standard''
                else if last_accessed \<le> 90 then ''standard_ia''
                else if last_accessed \<le> 365 then ''glacier''
                else ''glacier_deep'')
         in case price ''aws'' optimal_class of
              Inl e \<Rightarrow> Inl e
            | Inr p \<Rightarrow> Inr (optimal_class, gb * p))
      else if prov = ''azure'' then
        (let optimal_class =
               (if last_accessed \<le> 30 then ''hot''
                else if last_accessed \<le> 90 then ''cool''
                else ''archive'')
         in case price ''azure'' optimal_class of
              Inl e \<Rightarrow> Inl e
            | Inr p \<Rightarrow> Inr (optimal_class, gb * p))
      else Inr (''standard'', current))"

text \<open>The sentences of \<open>_generate_storage_reasoning\<close>, with the day count they print.\<close>

datatype storage_reason =
    ArchiveRecommended real
  | ColdStorageSuitable real
  | InfrequentTier real
  | AppearsOptimal

definition generate_storage_reasoning :: "real \<Rightarrow> string \<Rightarrow> storage_reason" where
  "generate_storage_reasoning last_accessed optimal_class =
     (if 365 < last_accessed then ArchiveRecommended last_accessed
      else if 90 < last_accessed then ColdStorageSuitable last_accessed
      else if 30 < last_accessed then InfrequentTier last_accessed
      else AppearsOptimal)"

text \<open>A row of the storage frame: every column may be missing.\<close>

record storage_row =
  row_resource_id :: "string option"
  row_provider :: "string option"
  row_service :: "string option"
  row_last_accessed_days :: "real option"
  row_storage_class :: "string option"
  row_monthly_cost :: "real option"
  row_size_gb :: "real option"

record storage_recommendation =
  st_resource_id :: string
  st_provider :: string
  st_service :: string
  current_storage_class :: string
  recommended_storage_class :: string
  st_current_cost :: real
  st_projected_cost :: real
  st_monthly_savings :: real
  last_accessed_days :: real
  size_gb :: real
  st_confidence :: real
  st_reasoning :: storage_reason

text \<open>
  The body of the loop of \<open>analyze_storage_optimization\<close> for one row; an exception inside
  the \<open>try\<close> skips the row.
\<close>

definition analyze_storage_row :: "storage_row \<Rightarrow> storage_recommendation option" where
  "analyze_storage_row storage =
     (let prov = get_or (row_provider storage) ''aws'';
          service = get_or (row_service storage) ''storage'';
          last_accessed = get_or (row_last_accessed_days storage) 0;
          current_class = get_or (row_storage_class storage) ''standard'';
          cur_cost = get_or (row_monthly_cost storage) 0;
          gb = get_or (row_size_gb storage) 0
      in case get_optimal_storage_class prov last_accessed cur_cost gb of
           Inl e \<Rightarrow> None
         | Inr (optimal_class, projected) \<Rightarrow>
             (if optimal_class \<noteq> current_class then
                (let savings = cur_cost - projected
                 in if 5 < savings then
                      Some \<lparr> st_resource_id = get_or (row_resource_id storage) ''unknown'',
                             st_provider = prov,
                             st_service = service,
                             current_storage_class = current_class,
                             recommended_storage_class = optimal_class,
                             st_current_cost = py_round cur_cost 2,
                             st_projected_cost = py_round projected 2,
                             st_monthly_savings = py_round savings 2,
                             last_accessed_days = last_accessed,
                             size_gb = gb,
                             st_confidence = 0.85,
                             st_reasoning = generate_storage_reasoning last_accessed optimal_class \<rparr>
                    else None)
              else None))"

definition analyze_storage_optimization :: "storage_row list \<Rightarrow> storage_recommendation list" where
  "analyze_storage_optimization storage_data = List.map_filter analyze_storage_row storage_data"

text \<open>An AWS bucket of the given age, class, monthly cost and size, for concrete evaluations.\<close>

definition aws_bucket :: "real \<Rightarrow> string \<Rightarrow> real \<Rightarrow> real \<Rightarrow> storage_row" where
  "aws_bucket days cls monthly gb =
     \<lparr> row_resource_id = Some ''bucket-001'', row_provider = Some ''aws'',
       row_service = Some ''s3'', row_last_accessed_days = Some days,
       row_storage_class = Some cls, row_monthly_cost = Some monthly,
       row_size_gb = Some gb \<rparr>"


section \<open>Facts about the Python helpers\<close>


lemma get_or_simps [simp]:
  "get_or (Some x) d = x"
  "get_or None d = d"
  by (simp_all add: get_or_def)


section \<open>Budget categorisation\<close>

lemma category_scan_thresholds:
  "category_scan budget_thresholds b =
     (if 100000 \<le> b \<and> b < 500000 then ''small''
      else if 500000 \<le> b \<and> b < 2000000 then ''medium''
      else if 2000000 \<le> b \<and> b < 5000000 then ''large''
      else ''enterprise'')"
  by (simp add: budget_thresholds_def)

text \<open>
  C2. Budget categorisation is total and lands in exactly one of the four categories: each
  category is returned on exactly its own bracket, the boundary values 100000, 500000,
  2000000 and 5000000 go to the higher bracket, and every budget below 100000 falls through
  to \<open>enterprise\<close>.
\<close>

theorem analyze_budget_category_brackets:
  "analyze_budget_category b \<in> {''small'', ''medium'', ''large'', ''enterprise''}
   \<and> (analyze_budget_category b = ''small'') = (100000 \<le> b \<and> b < 500000)
   \<and> (analyze_budget_category b = ''medium'') = (500000 \<le> b \<and> b < 2000000)
   \<and> (analyze_budget_category b = ''large'') = (2000000 \<le> b \<and> b < 5000000)
   \<and> (analyze_budget_category b = ''enterprise'') = (b < 100000 \<or> 5000000 \<le> b)
   \<and> analyze_budget_category 100000 = ''small''
   \<and> analyze_budget_category 500000 = ''medium''
   \<and> analyze_budget_category 2000000 = ''large''
   \<and> analyze_budget_category 5000000 = ''enterprise''
   \<and> (b < 100000 \<longrightarrow> analyze_budget_category b = ''enterprise'')"
  unfolding analyze_budget_category_def category_scan_thresholds
  by auto

theorem analyze_budget_category_brackets_witness:
  "(50000::real) < 100000 \<and> analyze_budget_category 50000 = ''enterprise''"
  using analyze_budget_category_brackets [of 50000] by simp

section \<open>Budget-driven savings projection\<close>

lemma optimize_fields:
  "budget_category (optimize_for_budget costs b) = analyze_budget_category b"
  "current_monthly_cost (optimize_for_budget costs b) = sum_list costs"
  "annual_savings (optimize_for_budget costs b) =
     projected_monthly_savings (optimize_for_budget costs b) * 12"
  "cost_reduction_percentage (optimize_for_budget costs b) =
     np_scale (np_div (projected_monthly_savings (optimize_for_budget costs b)) (sum_list costs)) 100"
  by (simp_all add: optimize_for_budget_def Let_def split: prod.splits)

lemma optimize_projected:
  "projected_monthly_savings (optimize_for_budget costs b) =
     (if analyze_budget_category b \<in> {''small'', ''medium''} then sum_list costs * 0.35
      else sum_list costs * 0.45)"
  by (simp add: optimize_for_budget_def Let_def split: prod.splits)

lemma category_7M: "analyze_budget_category 7000000 = ''enterprise''"
  by (simp add: analyze_budget_category_def category_scan_thresholds)

text \<open>
  C9 (as stated, refuted). For a cost table whose costs sum to zero the projected savings are
  zero as well, the ratio is \<open>0.0 / 0.0\<close>, and the reported percentage is NaN: at a budget of
  7,000,000 the category is \<open>enterprise\<close> but the percentage is not at least 35.
\<close>

theorem optimize_for_budget_zero_spend:
  "budget_category (optimize_for_budget [0] 7000000) = ''enterprise''
   \<and> cost_reduction_percentage (optimize_for_budget [0] 7000000) = NaN
   \<and> \<not> np_ge (cost_reduction_percentage (optimize_for_budget [0] 7000000)) 35"
  by (simp add: optimize_fields optimize_projected category_7M np_div_def np_scale_def np_ge_def)

text \<open>
  C9 (amended). For every cost table and budget, \<open>annual_savings\<close> is twelve times
  \<open>projected_monthly_savings\<close>. Whenever the current monthly spend (the sum of the costs) is
  not zero, \<open>cost_reduction_percentage\<close> is the finite value
  \<open>projected_monthly_savings / current_monthly_cost * 100\<close>, and a budget of 7,000,000 gives
  category \<open>enterprise\<close> with a percentage of 45, which is at least 35.
\<close>

theorem optimize_for_budget_relations:
  "annual_savings (optimize_for_budget costs b)
     = projected_monthly_savings (optimize_for_budget costs b) * 12
   \<and> budget_category (optimize_for_budget costs 7000000) = ''enterprise''
   \<and> (sum_list costs \<noteq> 0 \<longrightarrow>
        cost_reduction_percentage (optimize_for_budget costs b)
          = Finite (projected_monthly_savings (optimize_for_budget costs b)
                      / current_monthly_cost (optimize_for_budget costs b) * 100)
        \<and> cost_reduction_percentage (optimize_for_budget costs 7000000) = Finite 45
        \<and> np_ge (cost_reduction_percentage (optimize_for_budget costs 7000000)) 35)"
proof -
  have pct: "cost_reduction_percentage (optimize_for_budget costs 7000000) = Finite 45"
    if "sum_list costs \<noteq> 0"
    using that by (simp add: optimize_fields(4) optimize_projected category_7M np_div_def np_scale_def)
  show ?thesis
    using pct by (simp add: optimize_fields category_7M np_div_def np_scale_def np_ge_def)
qed

theorem optimize_for_budget_relations_witness:
  "sum_list [1000, 2500 :: real] \<noteq> 0
   \<and> annual_savings (optimize_for_budget [1000, 2500] 250000) = 14700
   \<and> cost_reduction_percentage (optimize_for_budget [1000, 2500] 250000) = Finite 35
   \<and> cost_reduction_percentage (optimize_for_budget [1000, 2500] 7000000) = Finite 45"
  using optimize_for_budget_relations [of "[1000, 2500]" 250000]
  by (simp add: optimize_projected optimize_fields analyze_budget_category_def
        category_scan_thresholds)


section \<open>Anomaly severity\<close>

lemma severity_loop_trained:
  "baseline_stats ''p95_cost'' = Some p95 \<Longrightarrow>
   severity_loop baseline_stats ps = Inr (map (\<lambda>(s, c). severity_of p95 s c) ps)"
  by (induction ps) auto

text \<open>
  C3. On a trained detector (\<open>baseline_stats\<close> holds \<open>p95_cost\<close>) the severity list is computed
  without error, one label per (score, cost) pair. The label is \<open>high\<close> for a score below -0.5,
  \<open>medium\<close> from -0.5 up to -0.2, \<open>low\<close> from -0.2 up to 0 and \<open>normal\<close> otherwise, with
  \<open>medium\<close> raised to \<open>high\<close> and \<open>low\<close> to \<open>medium\<close> when the cost exceeds twice the
  training p95 cost; the label after the cost check is never below the label from the score.
\<close>

theorem calculate_severity_mapping:
  assumes "baseline_stats ''p95_cost'' = Some p95"
  shows "calculate_severity baseline_stats scores costs
           = Inr (map (\<lambda>(s, c). severity_of p95 s c) (zip scores costs))
       \<and> severity_of p95 s c =
           (if s < - 0.5 then ''high''
            else if s < - 0.2 then (if c > 2 * p95 then ''high'' else ''medium'')
            else if s < 0 then (if c > 2 * p95 then ''medium'' else ''low'')
            else ''normal'')
       \<and> severity_rank (score_severity s) \<le> severity_rank (severity_of p95 s c)"
proof -
  have a: "calculate_severity baseline_stats scores costs
           = Inr (map (\<lambda>(s, c). severity_of p95 s c) (zip scores costs))"
    unfolding calculate_severity_def using assms by (rule severity_loop_trained)
  have b: "severity_of p95 s c =
           (if s < - 0.5 then ''high''
            else if s < - 0.2 then (if c > 2 * p95 then ''high'' else ''medium'')
            else if s < 0 then (if c > 2 * p95 then ''medium'' else ''low'')
            else ''normal'')"
    by (simp add: severity_of_def score_severity_def Let_def mult.commute)
  have c: "severity_rank (score_severity s) \<le> severity_rank (severity_of p95 s c)"
    by (simp add: severity_of_def score_severity_def Let_def severity_rank_def)
  from a b c show ?thesis by blast
qed

theorem calculate_severity_mapping_witness:
  "[''p95_cost'' \<mapsto> (100::real)] ''p95_cost'' = Some 100
   \<and> calculate_severity [''p95_cost'' \<mapsto> 100] [- 0.6, - 0.3, - 0.3, - 0.1, - 0.1, 0.2]
        [10, 10, 250, 10, 250, 250]
       = Inr [''high'', ''medium'', ''high'', ''low'', ''medium'', ''normal'']"
  using calculate_severity_mapping [of "[''p95_cost'' \<mapsto> 100]" 100
      "[- 0.6, - 0.3, - 0.3, - 0.1, - 0.1, 0.2]" "[10, 10, 250, 10, 250, 250]"]
  by (simp add: severity_of_def score_severity_def)


section \<open>Feature preparation\<close>

lemma convert_timestamps_Inr:
  "convert_timestamps rs = Inr df \<Longrightarrow> length df = length rs \<and> map cost df = map cost rs"
  by (induction rs arbitrary: df) (auto split: sum.splits)

lemma convert_timestamps_parsed:
  "\<forall>r\<in>set rs. \<exists>d. timestamp r = Parsed d \<Longrightarrow> \<exists>df. convert_timestamps rs = Inr df"
  by (induction rs) (auto split: sum.splits)

lemma make_row_fields [simp]:
  "cost (make_row r m s md z) = cost r"
  "log_cost (make_row r m s md z) = log1p (cost r)"
  "cost_rolling_mean_7d (make_row r m s md z) = m"
  "cost_rolling_std_7d (make_row r m s md z) = s"
  "cost_rolling_median_7d (make_row r m s md z) = md"
  "cost_zscore (make_row r m s md z) = z"
  by (simp_all add: make_row_def)

lemma prepare_features_rows:
  assumes "convert_timestamps rs = Inr df"
  shows "\<exists>rows. prepare_features rs = Inr rows \<and> length rows = length rs
           \<and> (\<forall>row\<in>set rows. log_cost row = log1p (cost row))
           \<and> mset (map cost rows) = mset (map cost rs)"
proof (cases "7 < length df")
  case True
  let ?sd = "sort_key (\<lambda>r. epoch (timestamp r)) df"
  let ?costs = "map cost ?sd"
  let ?rows = "map (\<lambda>i. make_row (?sd ! i) (series_mean (window 7 ?costs i))
                   (series_std (window 7 ?costs i)) (series_median (window 7 ?costs i))
                   (zscore (cost (?sd ! i)) (series_mean (window 7 ?costs i))
                      (series_std (window 7 ?costs i)))) [0..<length ?sd]"
  have pf: "prepare_features rs = Inr ?rows"
    using assms True by (simp add: prepare_features_def Let_def)
  have costs: "map cost ?rows = map cost ?sd"
    by (rule nth_equalityI) simp_all
  have "mset (map cost ?sd) = mset (map cost df)"
    by (simp add: mset_map)
  with costs convert_timestamps_Inr [OF assms]
  have ms: "mset (map cost ?rows) = mset (map cost rs)" by simp
  have len: "length ?rows = length rs"
    using convert_timestamps_Inr [OF assms] by simp
  have lc: "\<forall>row\<in>set ?rows. log_cost row = log1p (cost row)" by auto
  from pf len lc ms show ?thesis by blast
next
  case False
  let ?costs = "map cost df"
  let ?rows = "map (\<lambda>r. make_row r (series_mean ?costs) (series_std ?costs) (series_median ?costs)
                   (zscore (cost r) (series_mean ?costs) (series_std ?costs))) df"
  have pf: "prepare_features rs = Inr ?rows"
    using assms False by (simp add: prepare_features_def Let_def)
  have costs: "map cost ?rows = map cost rs"
    using convert_timestamps_Inr [OF assms] by (simp add: comp_def)
  have len: "length ?rows = length rs"
    using convert_timestamps_Inr [OF assms] by simp
  have lc: "\<forall>row\<in>set ?rows. log_cost row = log1p (cost row)" by auto
  from costs have ms: "mset (map cost ?rows) = mset (map cost rs)" by simp
  from pf len lc ms show ?thesis by blast
qed

text \<open>
  C4 (as stated, refuted). A frame with the costs -5 and -1/2 is not rejected: feature
  preparation returns a feature row for each record, with \<open>log_cost\<close> NaN for -5 and the
  finite value \<open>ln (1/2)\<close> for -1/2.
\<close>

theorem prepare_features_negative_cost_rows:
  "map_sum id (map (\<lambda>row. (cost row, log_cost row)))
     (prepare_features [record_at 0 (- 5), record_at 1 (- 1 / 2)])
   = Inr [(- 5, NaN), (- 1 / 2, Finite (ln (1 / 2)))]"
  by (simp add: prepare_features_def record_at_def Let_def log1p_def)

text \<open>
  C4 (amended). Feature preparation never rejects a record because of its cost. For every
  frame whose timestamps parse, negative costs included, it returns one feature row per
  record, over the same costs, and the \<open>log_cost\<close> of a row is numpy's \<open>log1p\<close> of its cost:
  \<open>ln (1 + cost)\<close> above -1, minus infinity at -1 and NaN below -1.
\<close>

theorem prepare_features_accepts_any_cost:
  assumes "\<forall>r\<in>set rs. \<exists>d. timestamp r = Parsed d"
  shows "\<exists>rows. prepare_features rs = Inr rows \<and> length rows = length rs
           \<and> (\<forall>row\<in>set rows.
                 log_cost row =
                   (if cost row > - 1 then Finite (ln (1 + cost row))
                    else if cost row = - 1 then NegInf else NaN))
           \<and> mset (map cost rows) = mset (map cost rs)"
proof -
  from convert_timestamps_parsed [OF assms]
  obtain df where "convert_timestamps rs = Inr df" by blast
  from prepare_features_rows [OF this] show ?thesis
    by (simp add: log1p_def)
qed

theorem prepare_features_accepts_any_cost_witness:
  "timestamp (record_at 0 (- 5)) = Parsed (timestamp (parsed_at 0 (- 5)))
   \<and> (\<exists>rows. prepare_features [record_at 0 (- 5)] = Inr rows \<and> length rows = 1
         \<and> mset (map cost rows) = {#- 5#})"
proof -
  have h: "\<forall>r\<in>set [record_at 0 (- 5)]. \<exists>d. timestamp r = Parsed d"
    by (simp add: record_at_def)
  from prepare_features_accepts_any_cost [OF h]
  obtain rows where "prepare_features [record_at 0 (- 5)] = Inr rows"
    "length rows = length [record_at 0 (- 5)]"
    "mset (map cost rows) = mset (map cost [record_at 0 (- 5)])" by blast
  then have "prepare_features [record_at 0 (- 5)] = Inr rows \<and> length rows = 1
         \<and> mset (map cost rows) = {#- 5#}"
    by (simp add: record_at_def)
  then have "\<exists>rows. prepare_features [record_at 0 (- 5)] = Inr rows \<and> length rows = 1
         \<and> mset (map cost rows) = {#- 5#}" ..
  moreover have "timestamp (record_at 0 (- 5)) = Parsed (timestamp (parsed_at 0 (- 5)))"
    by (simp add: record_at_def parsed_at_def)
  ultimately show ?thesis by (intro conjI)
qed





section \<open>Forecaster preconditions and prediction bounds\<close>

lemma length_prepare_data: "length (prepare_data cost_data) = card (fst ` set cost_data)"
  by (simp add: prepare_data_def length_remdups_card_conv)

text \<open>
  C8. Training on a history with fewer than 14 distinct dates fails with the ValueError
  \<open>Need at least 14 days of data for training\<close> (the insufficient-history failure) and leaves
  the predictor exactly as it was, so an untrained predictor stays untrained. Predicting with
  an untrained predictor fails with the ValueError \<open>Model must be trained before making
  predictions\<close> (the not-trained failure). Both exceptions reach the caller.
\<close>

theorem train_predict_preconditions:
  "(card (fst ` set cost_data) < 14 \<longrightarrow>
      train_model lib self cost_data
        = (Some (ValueError ''Need at least 14 days of data for training''), self))
   \<and> (\<not> is_trained self \<longrightarrow>
      predict self days_ahead
        = Inl (ValueError ''Model must be trained before making predictions''))"
  by (simp add: train_model_def Let_def length_prepare_data predict_def)

theorem train_predict_preconditions_witness:
  "\<forall>lib. card (fst ` set [(1 :: int, 10 :: real), (2, 11), (3, 12), (4, 13), (5, 14)]) < 14
     \<and> \<not> is_trained new_predictor
     \<and> train_model lib new_predictor [(1, 10), (2, 11), (3, 12), (4, 13), (5, 14)]
         = (Some (ValueError ''Need at least 14 days of data for training''), new_predictor)
     \<and> predict (snd (train_model lib new_predictor [(1, 10), (2, 11), (3, 12), (4, 13), (5, 14)])) 30
         = Inl (ValueError ''Model must be trained before making predictions'')"
proof (intro allI)
  fix lib :: prophet_lib
  have c: "card (fst ` set [(1 :: int, 10 :: real), (2, 11), (3, 12), (4, 13), (5, 14)]) < 14"
    by simp
  have u: "\<not> is_trained new_predictor" by (simp add: new_predictor_def)
  from train_predict_preconditions
         [of "[(1, 10), (2, 11), (3, 12), (4, 13), (5, 14)]" lib new_predictor 30] c u
  show "card (fst ` set [(1 :: int, 10 :: real), (2, 11), (3, 12), (4, 13), (5, 14)]) < 14
     \<and> \<not> is_trained new_predictor
     \<and> train_model lib new_predictor [(1, 10), (2, 11), (3, 12), (4, 13), (5, 14)]
         = (Some (ValueError ''Need at least 14 days of data for training''), new_predictor)
     \<and> predict (snd (train_model lib new_predictor [(1, 10), (2, 11), (3, 12), (4, 13), (5, 14)])) 30
         = Inl (ValueError ''Model must be trained before making predictions'')"
    by simp
qed

lemma tail_length: "length (tail n xs) = min n (length xs)"
  by (simp add: tail_def)

text \<open>
  C1. Take a forecasting library whose fitted models report, in every row, an interval
  \<open>yhat_lower \<le> yhat \<le> yhat_upper\<close>. Every predictor that \<open>train_model\<close> has trained with
  it is flagged trained and holds a fitted model; for every horizon, each row that \<open>predict\<close>
  returns has \<open>predicted_cost\<close>, \<open>confidence_lower\<close> and \<open>confidence_upper\<close> at least zero
  and \<open>confidence_lower \<le> predicted_cost \<le> confidence_upper\<close>; and \<open>predict\<close> returns the
  last \<open>days_ahead\<close> rows whenever the model returns a forecast.
\<close>

theorem predict_bounds:
  assumes lib_ordered:
      "\<forall>df m n rows. fit lib df = Inr m \<longrightarrow> m n = Inr rows \<longrightarrow>
         (\<forall>f\<in>set rows. yhat_lower f \<le> yhat f \<and> yhat f \<le> yhat_upper f)"
    and trained: "train_model lib self cost_data = (None, p)"
  shows "is_trained p
       \<and> (\<forall>rows. predict p days_ahead = Inr rows \<longrightarrow>
            (\<forall>r\<in>set rows. 0 \<le> predicted_cost r \<and> 0 \<le> confidence_lower r
                \<and> 0 \<le> confidence_upper r
                \<and> confidence_lower r \<le> predicted_cost r
                \<and> predicted_cost r \<le> confidence_upper r))
       \<and> (\<exists>m. model p = Some m
            \<and> (\<forall>forecast. m days_ahead = Inr forecast \<longrightarrow>
                  (\<exists>rows. predict p days_ahead = Inr rows
                     \<and> length rows = min days_ahead (length forecast))))"
proof -
  from trained obtain m where
    fitted: "fit lib (prepare_data cost_data) = Inr m"
    and p: "p = self\<lparr> model := Some m,
                       model_accuracy := Some (calculate_accuracy lib m (prepare_data cost_data)),
                       is_trained := True, last_training_date := Some (now lib) \<rparr>"
    by (auto simp: train_model_def Let_def split: if_splits sum.splits)
  from p have t: "is_trained p" and mp: "model p = Some m" by simp_all
  have ord: "yhat_lower f \<le> yhat f \<and> yhat f \<le> yhat_upper f"
    if "m days_ahead = Inr forecast" "f \<in> set (tail days_ahead forecast)" for forecast f
  proof -
    from that(2) have "f \<in> set forecast"
      by (auto simp: tail_def dest: in_set_dropD)
    with lib_ordered fitted that(1) show ?thesis by blast
  qed
  have rows: "\<forall>rows. predict p days_ahead = Inr rows \<longrightarrow>
            (\<forall>r\<in>set rows. 0 \<le> predicted_cost r \<and> 0 \<le> confidence_lower r
                \<and> 0 \<le> confidence_upper r
                \<and> confidence_lower r \<le> predicted_cost r
                \<and> predicted_cost r \<le> confidence_upper r)"
    using t mp ord
    by (fastforce simp: predict_def clip_lower_def split: sum.splits)
  have ret: "\<forall>forecast. m days_ahead = Inr forecast \<longrightarrow>
                  (\<exists>rows. predict p days_ahead = Inr rows
                     \<and> length rows = min days_ahead (length forecast))"
    using t mp by (simp add: predict_def tail_length)
  from t rows mp ret show ?thesis by blast
qed

lemma fortnight_dates: "card (fst ` set fortnight) = 14"
  by (simp add: fortnight_def)

theorem predict_bounds_witness:
  "fst (train_model sample_library new_predictor fortnight) = None
   \<and> is_trained (snd (train_model sample_library new_predictor fortnight))
   \<and> predict (snd (train_model sample_library new_predictor fortnight)) 2
       = Inr [\<lparr> date = 0, predicted_cost = 0, confidence_lower = 0, confidence_upper = 2 \<rparr>,
              \<lparr> date = 1, predicted_cost = 0, confidence_lower = 0, confidence_upper = 2 \<rparr>]"
proof -
  let ?p = "snd (train_model sample_library new_predictor fortnight)"
  have h1: "\<forall>df m n rows. fit sample_library df = Inr m \<longrightarrow> m n = Inr rows \<longrightarrow>
         (\<forall>f\<in>set rows. yhat_lower f \<le> yhat f \<and> yhat f \<le> yhat_upper f)"
    by (auto simp: sample_library_def level_model_def)
  have tm: "train_model sample_library new_predictor fortnight
            = (None, new_predictor\<lparr> model := Some (level_model (- 1) 3),
                 model_accuracy := Some (calculate_accuracy sample_library (level_model (- 1) 3)
                                           (prepare_data fortnight)),
                 is_trained := True, last_training_date := Some 0 \<rparr>)"
    by (simp add: train_model_def Let_def length_prepare_data fortnight_dates sample_library_def)
  then have h2: "train_model sample_library new_predictor fortnight = (None, ?p)" by simp
  have ev: "predict ?p 2
       = Inr [\<lparr> date = 0, predicted_cost = 0, confidence_lower = 0, confidence_upper = 2 \<rparr>,
              \<lparr> date = 1, predicted_cost = 0, confidence_lower = 0, confidence_upper = 2 \<rparr>]"
    unfolding tm
    by (simp add: predict_def level_model_def tail_def clip_lower_def numeral_2_eq_2)
  from tm have f: "fst (train_model sample_library new_predictor fortnight) = None" by simp
  from predict_bounds [OF h1 h2, of 2] have "is_trained ?p" by blast
  with f ev show ?thesis by (intro conjI)
qed


section \<open>Rightsizing search\<close>







lemma rightsize_unlisted:
  assumes "map_of instance_hierarchy (get_or (inst_provider inst) ''aws'') = None
           \<or> (\<exists>catalog. map_of instance_hierarchy (get_or (inst_provider inst) ''aws'') = Some catalog
                 \<and> map_of catalog (get_or (inst_instance_type inst) ''m5.large'') = None)"
  shows "rightsize_instance inst = None"
  using assms
  by (auto simp: rightsize_instance_def Let_def find_optimal_instance_type_def)








section \<open>Storage tiering\<close>

lemma price_aws:
  "price ''aws'' ''standard'' = Inr 0.023"
  "price ''aws'' ''standard_ia'' = Inr 0.0125"
  by (simp_all add: price_def pricing_def)

text \<open>
  C6. For AWS storage last accessed 45 days ago the optimal class is \<open>standard_ia\<close>, which is
  not \<open>standard\<close>; for AWS storage last accessed 15 days ago it is \<open>standard\<close>. On the frames:
  a 10691 GB standard bucket costing 245.80, idle for 45 days, gets the recommendation
  \<open>standard_ia\<close>; a bucket accessed 15 days ago gets \<open>standard\<close> recommended when it sits in
  another class and no recommendation when it is already standard.
\<close>

theorem storage_tier_by_recency:
  "get_optimal_storage_class ''aws'' 45 c s = Inr (''standard_ia'', s * 0.0125)
   \<and> ''standard_ia'' \<noteq> ''standard''
   \<and> get_optimal_storage_class ''aws'' 15 c s = Inr (''standard'', s * 0.023)
   \<and> map recommended_storage_class
       (analyze_storage_optimization [aws_bucket 45 ''standard'' 245.80 10691]) = [''standard_ia'']
   \<and> map recommended_storage_class
       (analyze_storage_optimization [aws_bucket 15 ''glacier'' 245.80 1000]) = [''standard'']
   \<and> analyze_storage_optimization [aws_bucket 15 ''standard'' 245.80 10691] = []"
  by (simp add: get_optimal_storage_class_def price_aws Let_def analyze_storage_optimization_def
        analyze_storage_row_def aws_bucket_def List.map_filter_simps)

lemma other_provider_class:
  "p \<noteq> ''aws'' \<Longrightarrow> p \<noteq> ''azure'' \<Longrightarrow> get_optimal_storage_class p d c s = Inr (''standard'', c)"
  by (simp add: get_optimal_storage_class_def)

lemma other_provider_row:
  assumes "row_provider st = Some p" "p \<noteq> ''aws''" "p \<noteq> ''azure''"
  shows "analyze_storage_row st = None"
  using assms by (simp add: analyze_storage_row_def Let_def other_provider_class)

text \<open>
  C10. For a storage row whose provider is present and is neither \<open>aws\<close> nor \<open>azure\<close>, the
  optimal class is \<open>standard\<close> with the projected cost equal to the current cost, so the
  savings are zero; the row yields no recommendation and no error, and the result for a frame
  is the same with or without that row.
\<close>

theorem other_provider_no_recommendation:
  assumes "row_provider st = Some p" and "p \<noteq> ''aws''" and "p \<noteq> ''azure''"
  shows "get_optimal_storage_class p d c s = Inr (''standard'', c)
       \<and> (case get_optimal_storage_class p d c s of
            Inr (optimal_class, projected) \<Rightarrow> c - projected = 0
          | Inl e \<Rightarrow> False)
       \<and> analyze_storage_row st = None
       \<and> analyze_storage_optimization (xs @ st # ys) = analyze_storage_optimization (xs @ ys)"
  using assms other_provider_row [OF assms]
  by (simp add: other_provider_class analyze_storage_optimization_def List.map_filter_def)

theorem other_provider_no_recommendation_witness:
  "row_provider \<lparr> row_resource_id = Some ''vol-9'', row_provider = Some ''onpremises'',
       row_service = Some ''nas'', row_last_accessed_days = Some 500,
       row_storage_class = Some ''archive'', row_monthly_cost = Some 900,
       row_size_gb = Some 20000 \<rparr> = Some ''onpremises''
   \<and> ''onpremises'' \<noteq> ''aws'' \<and> ''onpremises'' \<noteq> ''azure''
   \<and> get_optimal_storage_class ''onpremises'' 500 900 20000 = Inr (''standard'', 900)
   \<and> analyze_storage_optimization
        [aws_bucket 45 ''standard'' 245.80 10691,
         \<lparr> row_resource_id = Some ''vol-9'', row_provider = Some ''onpremises'',
           row_service = Some ''nas'', row_last_accessed_days = Some 500,
           row_storage_class = Some ''archive'', row_monthly_cost = Some 900,
           row_size_gb = Some 20000 \<rparr>]
       = analyze_storage_optimization [aws_bucket 45 ''standard'' 245.80 10691]"
  using other_provider_no_recommendation
    [of "\<lparr> row_resource_id = Some ''vol-9'', row_provider = Some ''onpremises'',
       row_service = Some ''nas'', row_last_accessed_days = Some 500,
       row_storage_class = Some ''archive'', row_monthly_cost = Some 900,
       row_size_gb = Some 20000 \<rparr>" "''onpremises''" 500 900 20000
       "[aws_bucket 45 ''standard'' 245.80 10691]" "[]"]
  by simp

end
